theory Spec2Isabelle
  imports Main "HOL-Library.Word"
begin

section \<open>vecna: a schema-validated filter builder\<close>

text \<open>
  A shallow embedding of the Go package \<^verbatim>\<open>vecna\<close>: \<^verbatim>\<open>api.go\<close> (operators, the Filter
  tree and its error check, field kinds, the schema), \<^verbatim>\<open>builder.go\<close> (schema extraction,
  the builder, the field builder and its validation) and the file of \<^verbatim>\<open>FilterSpec\<close> (the
  conversion of a serializable FilterSpec into a Filter).

  Conventions of the embedding.
  \<^item> A Go method \<^verbatim>\<open>T.m\<close> is the function \<open>T_m\<close>; the receiver is its first argument.
  \<^item> A pointer that may be nil (\<^verbatim>\<open>*Filter\<close>, \<^verbatim>\<open>*FilterSpec\<close>, \<^verbatim>\<open>*FieldSpec\<close>) is an
    \<open>option\<close>; a function that always returns a fresh node returns the node itself.
  \<^item> The Go interface \<^verbatim>\<open>error\<close> is \<open>error option\<close>, \<open>None\<close> being \<^verbatim>\<open>nil\<close>.
  \<^item> A nil slice and an empty slice are both the empty list: the package only takes their
    length and ranges over them.
\<close>

subsection \<open>Errors\<close>

text \<open>
  The three sentinel errors of \<^verbatim>\<open>api.go\<close>, and the errors \<^verbatim>\<open>fmt.Errorf\<close> builds around
  them. \<open>Errorf format wrapped args\<close> stands for \<^verbatim>\<open>fmt.Errorf(format, wrapped, args...)\<close>
  where the first verb of the format is \<^verbatim>\<open>%w\<close>: it keeps the format string, the wrapped
  error and the remaining arguments, each tagged with its verb (\<^verbatim>\<open>%s\<close> or \<^verbatim>\<open>%q\<close>), instead
  of the rendered text.
\<close>

datatype fmt_arg = ArgS string | ArgQ string

datatype error =
    ErrNotStruct
  | ErrFieldNotFound
  | ErrInvalidFilter
  | Errorf string error "fmt_arg list"

text \<open>\<^verbatim>\<open>errors.Is\<close>: the error itself or one it wraps, following the chain of \<^verbatim>\<open>%w\<close>.\<close>

fun errors_Is :: "error \<Rightarrow> error \<Rightarrow> bool" where
  "errors_Is (Errorf f w as) target = (Errorf f w as = target \<or> errors_Is w target)"
| "errors_Is e target = (e = target)"

subsection \<open>Operators and field kinds (api.go)\<close>

text \<open>
  Modelled from the spec: the constants \<open>Nin\<close>, \<open>Like\<close>, \<open>Contains\<close> and \<open>OpNot\<close> (Go:
  \<^verbatim>\<open>Not\<close>). \<^verbatim>\<open>builder.go\<close> uses them, and the constant block of \<^verbatim>\<open>api.go\<close> declares only
  \<^verbatim>\<open>Eq, Ne, Gt, Gte, Lt, Lte, In, And, Or\<close>; the spec lists the operators as the closed
  enumeration Eq, Ne, Gt, Gte, Lt, Lte, In, NotIn, Like, Contains, And, Or, Not.
  \<^verbatim>\<open>Op\<close> is a \<^verbatim>\<open>uint8\<close> whose zero value is \<^verbatim>\<open>Eq\<close>; the package builds no other value.
\<close>

datatype Op = Eq | Ne | Gt | Gte | Lt | Lte | In | Nin | Like | Contains | And | Or | OpNot

text \<open>\<^verbatim>\<open>Op.String\<close>: the nine cases of the source, everything else is \<^verbatim>\<open>"unknown"\<close>.\<close>

fun Op_String :: "Op \<Rightarrow> string" where
  "Op_String Eq = ''eq''"
| "Op_String Ne = ''ne''"
| "Op_String Gt = ''gt''"
| "Op_String Gte = ''gte''"
| "Op_String Lt = ''lt''"
| "Op_String Lte = ''lte''"
| "Op_String In = ''in''"
| "Op_String And = ''and''"
| "Op_String Or = ''or''"
| "Op_String _ = ''unknown''"

datatype FieldKind = KindString | KindInt | KindFloat | KindBool | KindSlice | KindUnknown

fun FieldKind_String :: "FieldKind \<Rightarrow> string" where
  "FieldKind_String KindString = ''string''"
| "FieldKind_String KindInt = ''int''"
| "FieldKind_String KindFloat = ''float''"
| "FieldKind_String KindBool = ''bool''"
| "FieldKind_String KindSlice = ''slice''"
| "FieldKind_String _ = ''unknown''"

subsection \<open>Values of type \<^verbatim>\<open>any\<close>\<close>

text \<open>
  The dynamic values a filter can hold: what \<^verbatim>\<open>encoding/json\<close> decodes into (nil, bool,
  float64, string, \<^verbatim>\<open>[]any\<close>, \<^verbatim>\<open>map[string]any\<close>) and what Go callers pass (int, and typed
  slices such as \<^verbatim>\<open>[]string\<close>). A float64 is its 64 bits. \<open>VSliceAny\<close> is a \<^verbatim>\<open>[]any\<close>;
  \<open>VSliceOf t xs\<close> is a slice of the concrete element type named \<open>t\<close>.
\<close>

datatype val =
    VNil
  | VBool bool
  | VInt "64 word"
  | VFloat "64 word"
  | VString string
  | VSliceAny "val list"
  | VSliceOf string "val list"
  | VMap "(string \<times> val) list"

datatype reflect_Kind =
    reflect_Invalid | reflect_Bool | reflect_Int | reflect_Float64
  | reflect_String | reflect_Slice | reflect_Map

text \<open>\<^verbatim>\<open>reflect.ValueOf(v).Kind()\<close>.\<close>

fun reflect_Kind_of :: "val \<Rightarrow> reflect_Kind" where
  "reflect_Kind_of VNil = reflect_Invalid"
| "reflect_Kind_of (VBool _) = reflect_Bool"
| "reflect_Kind_of (VInt _) = reflect_Int"
| "reflect_Kind_of (VFloat _) = reflect_Float64"
| "reflect_Kind_of (VString _) = reflect_String"
| "reflect_Kind_of (VSliceAny _) = reflect_Slice"
| "reflect_Kind_of (VSliceOf _ _) = reflect_Slice"
| "reflect_Kind_of (VMap _) = reflect_Map"

subsection \<open>The filter tree and its error check (api.go)\<close>

text \<open>
  \<^verbatim>\<open>type Filter struct { op; field; value; children []*Filter; err error }\<close>.
  The children are pointers, so a child can be nil.
\<close>

datatype Filter =
  Filter (Filter_Op: Op) (Filter_Field: string) (Filter_Value: val)
         (Filter_Children: "Filter option list") (Filter_err: "error option")

text \<open>
  \<^verbatim>\<open>Filter.Err\<close>. \<open>Filter_Err_range\<close> is its loop over the children, which returns at the
  first child whose own \<^verbatim>\<open>Err()\<close> is not nil.
\<close>

fun Filter_Err :: "Filter option \<Rightarrow> error option"
  and Filter_Err_range :: "Filter option list \<Rightarrow> error option" where
  "Filter_Err None = None"
| "Filter_Err (Some (Filter opr fld v cs e)) =
     (if e \<noteq> None then e else Filter_Err_range cs)"
| "Filter_Err_range [] = None"
| "Filter_Err_range (child # rest) =
     (case Filter_Err child of
        Some e \<Rightarrow> Some e
      | None \<Rightarrow> Filter_Err_range rest)"

subsection \<open>The schema (api.go)\<close>

record FieldSpec =
  Name :: string
  GoName :: string
  Kind :: FieldKind

record Spec =
  TypeName :: string
  Fields :: "FieldSpec list"

text \<open>\<^verbatim>\<open>Spec.Field\<close>: a linear scan that returns the first entry of that name.\<close>

fun Spec_Field_scan :: "FieldSpec list \<Rightarrow> string \<Rightarrow> FieldSpec option" where
  "Spec_Field_scan [] name = None"
| "Spec_Field_scan (f # fs) name = (if Name f = name then Some f else Spec_Field_scan fs name)"

definition Spec_Field :: "Spec \<Rightarrow> string \<Rightarrow> FieldSpec option" where
  "Spec_Field s name = Spec_Field_scan (Fields s) name"

subsection \<open>Schema extraction (builder.go)\<close>

text \<open>
  The introspection library \<^verbatim>\<open>sentinel\<close> is an external collaborator. Its result is a
  parameter of \<open>New\<close>: \<open>None\<close> when \<^verbatim>\<open>sentinel.TryInspect[T]()\<close> returns an error (the
  type is not a struct), the metadata otherwise.
\<close>

datatype sentinel_FieldKind =
    sentinel_KindScalar | sentinel_KindSlice | sentinel_KindStruct
  | sentinel_KindMap | sentinel_KindPointer | sentinel_KindInterface

record sentinel_FieldMetadata =
  sentinel_Name :: string
  sentinel_Type :: string
  sentinel_Kind :: sentinel_FieldKind
  sentinel_Tags :: "string \<rightharpoonup> string"

record sentinel_Metadata =
  sentinel_TypeName :: string
  sentinel_Fields :: "sentinel_FieldMetadata list"

text \<open>\<^verbatim>\<open>strings.Split(s, sep)\<close> for a separator of one byte.\<close>

fun strings_Split :: "string \<Rightarrow> char \<Rightarrow> string list" where
  "strings_Split [] sep = [[]]"
| "strings_Split (c # cs) sep =
     (if c = sep then [] # strings_Split cs sep
      else (case strings_Split cs sep of
              [] \<Rightarrow> [[c]]
            | p # ps \<Rightarrow> (c # p) # ps))"

definition strings_HasPrefix :: "string \<Rightarrow> string \<Rightarrow> bool" where
  "strings_HasPrefix s pre = (take (length pre) s = pre)"

definition resolveFieldName :: "sentinel_FieldMetadata \<Rightarrow> string" where
  "resolveFieldName field =
     (case sentinel_Tags field ''json'' of
        Some jsonTag \<Rightarrow>
          (let parts = strings_Split jsonTag (CHR '','')
           in if length parts > 0 \<and> parts ! 0 \<noteq> [] then parts ! 0
              else sentinel_Name field)
      | None \<Rightarrow> sentinel_Name field)"

definition resolveFieldKind :: "sentinel_FieldKind \<Rightarrow> string \<Rightarrow> FieldKind" where
  "resolveFieldKind kind typeName =
     (case kind of
        sentinel_KindScalar \<Rightarrow>
          (if strings_HasPrefix typeName ''int'' \<or> strings_HasPrefix typeName ''uint''
             then KindInt
           else if strings_HasPrefix typeName ''float'' then KindFloat
           else if typeName = ''bool'' then KindBool
           else if typeName = ''string'' then KindString
           else KindUnknown)
      | sentinel_KindSlice \<Rightarrow> KindSlice
      | _ \<Rightarrow> KindUnknown)"

text \<open>
  \<^verbatim>\<open>type Builder[T any] struct { spec Spec; fields map[string]*FieldSpec }\<close>.
  An entry of \<open>b_fields\<close> is the FieldSpec its pointer refers to: \<open>New\<close> allocates
  \<^verbatim>\<open>spec.Fields\<close> with capacity \<^verbatim>\<open>len(metadata.Fields)\<close>, so no \<^verbatim>\<open>append\<close> moves it, and
  nothing writes to an entry once it is appended.
\<close>

record Builder =
  b_spec :: Spec
  b_fields :: "string \<rightharpoonup> FieldSpec"

text \<open>
  The loop of \<open>New\<close> over \<^verbatim>\<open>metadata.Fields\<close>; its state is \<^verbatim>\<open>spec.Fields\<close> and the map
  \<^verbatim>\<open>fields\<close> (here \<open>fieldsMap\<close>). The source's \<^verbatim>\<open>fields[name] = &spec.Fields[len(spec.Fields)-1]\<close> stores the
  element just appended.
\<close>

fun New_loop :: "sentinel_FieldMetadata list \<Rightarrow> FieldSpec list \<times> (string \<rightharpoonup> FieldSpec)
                   \<Rightarrow> FieldSpec list \<times> (string \<rightharpoonup> FieldSpec)" where
  "New_loop [] st = st"
| "New_loop (field # rest) (specFields, fieldsMap) =
     (let name = resolveFieldName field
      in if name = ''-'' \<or> name = [] then New_loop rest (specFields, fieldsMap)
         else
           (let kind = resolveFieldKind (sentinel_Kind field) (sentinel_Type field);
                fieldSpec = \<lparr>Name = name, GoName = sentinel_Name field, Kind = kind\<rparr>;
                specFields' = specFields @ [fieldSpec]
            in New_loop rest
                 (specFields', fieldsMap(name \<mapsto> specFields' ! (length specFields' - 1)))))"

definition New :: "sentinel_Metadata option \<Rightarrow> error + Builder" where
  "New inspected =
     (case inspected of
        None \<Rightarrow> Inl ErrNotStruct
      | Some metadata \<Rightarrow>
          (let (specFields, fieldsMap) = New_loop (sentinel_Fields metadata) ([], Map.empty)
           in Inr \<lparr>b_spec = \<lparr>TypeName = sentinel_TypeName metadata, Fields = specFields\<rparr>,
                   b_fields = fieldsMap\<rparr>))"

definition Builder_Spec :: "Builder \<Rightarrow> Spec" where
  "Builder_Spec b = b_spec b"

subsection \<open>The builder and the field builder (builder.go)\<close>

record FieldBuilder =
  fb_builder :: Builder
  fb_field :: string
  fb_spec :: "FieldSpec option"
  fb_err :: "error option"

definition Builder_Where :: "Builder \<Rightarrow> string \<Rightarrow> FieldBuilder" where
  "Builder_Where b field =
     (case b_fields b field of
        None \<Rightarrow>
          \<lparr>fb_builder = b, fb_field = field, fb_spec = None,
           fb_err = Some (Errorf ''%w: %s'' ErrFieldNotFound [ArgS field])\<rparr>
      | Some spec \<Rightarrow>
          \<lparr>fb_builder = b, fb_field = field, fb_spec = Some spec, fb_err = None\<rparr>)"

text \<open>The logical combinators set only \<^verbatim>\<open>op\<close> and \<^verbatim>\<open>children\<close>; the rest is zero.\<close>

definition Builder_And :: "Builder \<Rightarrow> Filter option list \<Rightarrow> Filter" where
  "Builder_And b filters = Filter And [] VNil filters None"

definition Builder_Or :: "Builder \<Rightarrow> Filter option list \<Rightarrow> Filter" where
  "Builder_Or b filters = Filter Or [] VNil filters None"

definition Builder_Not :: "Builder \<Rightarrow> Filter option \<Rightarrow> Filter" where
  "Builder_Not b child = Filter OpNot [] VNil [child] None"

definition validateInValue :: "val \<Rightarrow> error option" where
  "validateInValue v =
     (if reflect_Kind_of v \<noteq> reflect_Slice
        then Some (Errorf ''%w: In operator requires slice of values'' ErrInvalidFilter [])
      else None)"

definition isComparisonOp :: "Op \<Rightarrow> bool" where
  "isComparisonOp opr = (opr = Gt \<or> opr = Gte \<or> opr = Lt \<or> opr = Lte)"

definition isNumericKind :: "FieldKind \<Rightarrow> bool" where
  "isNumericKind kind = (kind = KindInt \<or> kind = KindFloat)"

definition notValidFor :: "Op \<Rightarrow> FieldKind \<Rightarrow> string \<Rightarrow> error" where
  \<comment> \<open>the error the three kind checks of \<^verbatim>\<open>validateValue\<close> build, with the same text\<close>
  "notValidFor opr kind field =
     Errorf ''%w: operator %s not valid for %s field %s'' ErrInvalidFilter
       [ArgS (Op_String opr), ArgS (FieldKind_String kind), ArgS field]"

definition FieldBuilder_validateValue :: "FieldBuilder \<Rightarrow> Op \<Rightarrow> val \<Rightarrow> error option" where
  "FieldBuilder_validateValue fb opr v =
     (case fb_spec fb of
        None \<Rightarrow> None
      | Some spec \<Rightarrow>
          if opr = In \<or> opr = Nin then validateInValue v
          else if opr = Like \<and> Kind spec \<noteq> KindString
            then Some (notValidFor opr (Kind spec) (fb_field fb))
          else if opr = Contains \<and> Kind spec \<noteq> KindSlice
            then Some (notValidFor opr (Kind spec) (fb_field fb))
          else if isComparisonOp opr \<and> \<not> isNumericKind (Kind spec)
            then Some (notValidFor opr (Kind spec) (fb_field fb))
          else None)"

definition FieldBuilder_makeFilter :: "FieldBuilder \<Rightarrow> Op \<Rightarrow> val \<Rightarrow> Filter" where
  "FieldBuilder_makeFilter fb opr v =
     (if fb_err fb \<noteq> None then Filter opr (fb_field fb) v [] (fb_err fb)
      else (case FieldBuilder_validateValue fb opr v of
              Some e \<Rightarrow> Filter opr (fb_field fb) v [] (Some e)
            | None \<Rightarrow> Filter opr (fb_field fb) v [] None))"

definition FieldBuilder_Eq :: "FieldBuilder \<Rightarrow> val \<Rightarrow> Filter" where
  "FieldBuilder_Eq fb v = FieldBuilder_makeFilter fb Eq v"

definition FieldBuilder_Ne :: "FieldBuilder \<Rightarrow> val \<Rightarrow> Filter" where
  "FieldBuilder_Ne fb v = FieldBuilder_makeFilter fb Ne v"

definition FieldBuilder_Gt :: "FieldBuilder \<Rightarrow> val \<Rightarrow> Filter" where
  "FieldBuilder_Gt fb v = FieldBuilder_makeFilter fb Gt v"

definition FieldBuilder_Gte :: "FieldBuilder \<Rightarrow> val \<Rightarrow> Filter" where
  "FieldBuilder_Gte fb v = FieldBuilder_makeFilter fb Gte v"

definition FieldBuilder_Lt :: "FieldBuilder \<Rightarrow> val \<Rightarrow> Filter" where
  "FieldBuilder_Lt fb v = FieldBuilder_makeFilter fb Lt v"

definition FieldBuilder_Lte :: "FieldBuilder \<Rightarrow> val \<Rightarrow> Filter" where
  "FieldBuilder_Lte fb v = FieldBuilder_makeFilter fb Lte v"

text \<open>
  \<^verbatim>\<open>In\<close> and \<^verbatim>\<open>Nin\<close> are variadic (\<^verbatim>\<open>values ...any\<close>): the list of arguments is the
  \<^verbatim>\<open>[]any\<close> handed to \<^verbatim>\<open>makeFilter\<close>.
\<close>

definition FieldBuilder_In :: "FieldBuilder \<Rightarrow> val list \<Rightarrow> Filter" where
  "FieldBuilder_In fb values = FieldBuilder_makeFilter fb In (VSliceAny values)"

definition FieldBuilder_Nin :: "FieldBuilder \<Rightarrow> val list \<Rightarrow> Filter" where
  "FieldBuilder_Nin fb values = FieldBuilder_makeFilter fb Nin (VSliceAny values)"

definition FieldBuilder_Like :: "FieldBuilder \<Rightarrow> string \<Rightarrow> Filter" where
  "FieldBuilder_Like fb pattern = FieldBuilder_makeFilter fb Like (VString pattern)"

definition FieldBuilder_Contains :: "FieldBuilder \<Rightarrow> val \<Rightarrow> Filter" where
  "FieldBuilder_Contains fb v = FieldBuilder_makeFilter fb Contains v"

subsection \<open>The spec converter (FilterSpec, FromSpec, parseOp)\<close>

text \<open>
  \<^verbatim>\<open>type FilterSpec struct { Op string; Field string; Value any; Children []*FilterSpec }\<close>.
\<close>

datatype FilterSpec =
  FilterSpec (FilterSpec_Op: string) (FilterSpec_Field: string) (FilterSpec_Value: val)
             (FilterSpec_Children: "FilterSpec option list")

text \<open>
  \<^verbatim>\<open>parseOp\<close>: a switch over nine string literals. The failure keeps the token as the
  \<^verbatim>\<open>%q\<close> argument of the error.
\<close>

definition parseOp :: "string \<Rightarrow> error + Op" where
  "parseOp s =
     (if s = ''eq'' then Inr Eq
      else if s = ''ne'' then Inr Ne
      else if s = ''gt'' then Inr Gt
      else if s = ''gte'' then Inr Gte
      else if s = ''lt'' then Inr Lt
      else if s = ''lte'' then Inr Lte
      else if s = ''in'' then Inr In
      else if s = ''and'' then Inr And
      else if s = ''or'' then Inr Or
      else Inl (Errorf ''%w: unknown operator %q'' ErrInvalidFilter [ArgQ s]))"

text \<open>
  \<^verbatim>\<open>fromInSpec\<close>: the type assertion \<^verbatim>\<open>value.([]any)\<close> succeeds on a \<^verbatim>\<open>[]any\<close> only; then
  \<^verbatim>\<open>fb.In(slice...)\<close> hands the slice over as the argument list. Any other value is the
  single argument of \<^verbatim>\<open>fb.In(value)\<close>.
\<close>

definition Builder_fromInSpec :: "Builder \<Rightarrow> FieldBuilder \<Rightarrow> val \<Rightarrow> Filter" where
  "Builder_fromInSpec b fb v =
     (case v of
        VSliceAny elems \<Rightarrow> FieldBuilder_In fb elems
      | _ \<Rightarrow> FieldBuilder_In fb [v])"

definition Builder_fromFieldSpec :: "Builder \<Rightarrow> Op \<Rightarrow> string \<Rightarrow> val \<Rightarrow> Filter" where
  "Builder_fromFieldSpec b opr field v =
     (let fb = Builder_Where b field
      in case opr of
           Eq \<Rightarrow> FieldBuilder_Eq fb v
         | Ne \<Rightarrow> FieldBuilder_Ne fb v
         | Gt \<Rightarrow> FieldBuilder_Gt fb v
         | Gte \<Rightarrow> FieldBuilder_Gte fb v
         | Lt \<Rightarrow> FieldBuilder_Lt fb v
         | Lte \<Rightarrow> FieldBuilder_Lte fb v
         | In \<Rightarrow> Builder_fromInSpec b fb v
         | _ \<Rightarrow> Filter opr field v []
                  (Some (Errorf ''%w: unsupported field operator %s'' ErrInvalidFilter
                           [ArgS (Op_String opr)])))"

text \<open>
  \<^verbatim>\<open>FromSpec\<close> and \<^verbatim>\<open>fromLogicalSpec\<close> call each other; \<open>Builder_fromLogicalSpec_range\<close> is the
  loop \<^verbatim>\<open>for i, child := range children { filters[i] = b.FromSpec(child) }\<close>. A Filter
  built from \<^verbatim>\<open>&Filter{err: ...}\<close> alone has the zero operator \<^verbatim>\<open>Eq\<close>, an empty field, a
  nil value and no children.
\<close>

fun Builder_FromSpec :: "Builder \<Rightarrow> FilterSpec option \<Rightarrow> Filter"
  and Builder_fromLogicalSpec :: "Builder \<Rightarrow> Op \<Rightarrow> FilterSpec option list \<Rightarrow> Filter"
  and Builder_fromLogicalSpec_range :: "Builder \<Rightarrow> FilterSpec option list \<Rightarrow> Filter option list"
where
  "Builder_FromSpec b None =
     Filter Eq [] VNil [] (Some (Errorf ''%w: nil spec'' ErrInvalidFilter []))"
| "Builder_FromSpec b (Some (FilterSpec sop sfield svalue schildren)) =
     (case parseOp sop of
        Inl e \<Rightarrow> Filter Eq [] VNil [] (Some e)
      | Inr opr \<Rightarrow>
          if opr = And \<or> opr = Or then Builder_fromLogicalSpec b opr schildren
          else Builder_fromFieldSpec b opr sfield svalue)"
| "Builder_fromLogicalSpec b opr [] =
     Filter opr [] VNil []
       (Some (Errorf ''%w: %s requires at least one child'' ErrInvalidFilter
                [ArgS (Op_String opr)]))"
| "Builder_fromLogicalSpec b opr (c # cs) =
     (let filters = Builder_fromLogicalSpec_range b (c # cs)
      in if opr = And then Builder_And b filters else Builder_Or b filters)"
| "Builder_fromLogicalSpec_range b [] = []"
| "Builder_fromLogicalSpec_range b (child # rest) =
     Some (Builder_FromSpec b child) # Builder_fromLogicalSpec_range b rest"

subsection \<open>Notions used to state the properties\<close>

text \<open>
  The nodes of a tree in depth-first pre-order (a node before its children, the children
  from left to right, a nil child contributing nothing), and the first deferred error in
  a list of nodes. These two follow the words of the specification of the error check;
  \<open>Filter_Err\<close> above follows the code.
\<close>

fun preorder :: "Filter option \<Rightarrow> Filter list"
  and preorder_range :: "Filter option list \<Rightarrow> Filter list" where
  "preorder None = []"
| "preorder (Some (Filter opr fld v cs e)) = Filter opr fld v cs e # preorder_range cs"
| "preorder_range [] = []"
| "preorder_range (child # rest) = preorder child @ preorder_range rest"

fun first_error :: "Filter list \<Rightarrow> error option" where
  "first_error [] = None"
| "first_error (n # ns) =
     (case Filter_err n of Some e \<Rightarrow> Some e | None \<Rightarrow> first_error ns)"

text \<open>
  A nesting of a leaf inside the combinators: the path from the root down to the leaf,
  with the siblings to the left and to the right at every \<^verbatim>\<open>And\<close> and \<^verbatim>\<open>Or\<close>.
  \<open>nest\<close> builds the tree with the builder's own combinators. \<open>clean_before\<close> says
  that no sibling to the left of the path reports an error.
\<close>

datatype nesting =
    Here
  | InAnd "Filter option list" nesting "Filter option list"
  | InOr "Filter option list" nesting "Filter option list"
  | InNot nesting

fun nest :: "Builder \<Rightarrow> nesting \<Rightarrow> Filter \<Rightarrow> Filter" where
  "nest b Here leaf = leaf"
| "nest b (InAnd before n after) leaf = Builder_And b (before @ Some (nest b n leaf) # after)"
| "nest b (InOr before n after) leaf = Builder_Or b (before @ Some (nest b n leaf) # after)"
| "nest b (InNot n) leaf = Builder_Not b (Some (nest b n leaf))"

fun clean_before :: "nesting \<Rightarrow> bool" where
  "clean_before Here = True"
| "clean_before (InAnd before n after) = (Filter_Err_range before = None \<and> clean_before n)"
| "clean_before (InOr before n after) = (Filter_Err_range before = None \<and> clean_before n)"
| "clean_before (InNot n) = clean_before n"

text \<open>
  What one iteration of the loop of \<open>New\<close> decides for a declared field: whether it is
  skipped, and the entry it appends otherwise.
\<close>

definition New_skips :: "sentinel_FieldMetadata \<Rightarrow> bool" where
  "New_skips field = (resolveFieldName field = ''-'' \<or> resolveFieldName field = [])"

definition New_fieldSpec :: "sentinel_FieldMetadata \<Rightarrow> FieldSpec" where
  "New_fieldSpec field =
     \<lparr>Name = resolveFieldName field, GoName = sentinel_Name field,
      Kind = resolveFieldKind (sentinel_Kind field) (sentinel_Type field)\<rparr>"

definition New_entries :: "sentinel_FieldMetadata list \<Rightarrow> FieldSpec list" where
  "New_entries declared = map New_fieldSpec (filter (\<lambda>field. \<not> New_skips field) declared)"

subsection \<open>Test data\<close>

text \<open>
  The struct \<^verbatim>\<open>testMetadata\<close> of \<^verbatim>\<open>builder_test.go\<close> as \<^verbatim>\<open>sentinel\<close> describes it, and the
  builder \<open>New\<close> makes of it.
\<close>

definition testMetadata :: sentinel_Metadata where
  "testMetadata =
     \<lparr>sentinel_TypeName = ''testMetadata'',
      sentinel_Fields =
        [\<lparr>sentinel_Name = ''Category'', sentinel_Type = ''string'',
          sentinel_Kind = sentinel_KindScalar, sentinel_Tags = [''json'' \<mapsto> ''category'']\<rparr>,
         \<lparr>sentinel_Name = ''Score'', sentinel_Type = ''float64'',
          sentinel_Kind = sentinel_KindScalar, sentinel_Tags = [''json'' \<mapsto> ''score'']\<rparr>,
         \<lparr>sentinel_Name = ''Count'', sentinel_Type = ''int'',
          sentinel_Kind = sentinel_KindScalar, sentinel_Tags = [''json'' \<mapsto> ''count'']\<rparr>,
         \<lparr>sentinel_Name = ''Active'', sentinel_Type = ''bool'',
          sentinel_Kind = sentinel_KindScalar, sentinel_Tags = [''json'' \<mapsto> ''active'']\<rparr>,
         \<lparr>sentinel_Name = ''Tags'', sentinel_Type = ''[]string'',
          sentinel_Kind = sentinel_KindSlice, sentinel_Tags = [''json'' \<mapsto> ''tags'']\<rparr>,
         \<lparr>sentinel_Name = ''Internal'', sentinel_Type = ''string'',
          sentinel_Kind = sentinel_KindScalar, sentinel_Tags = [''json'' \<mapsto> ''-'']\<rparr>,
         \<lparr>sentinel_Name = ''NoTag'', sentinel_Type = ''string'',
          sentinel_Kind = sentinel_KindScalar, sentinel_Tags = Map.empty\<rparr>]\<rparr>"

definition testBuilder :: Builder where
  "testBuilder = projr (New (Some testMetadata))"

text \<open>
  A struct with two fields of one external name:
  \<^verbatim>\<open>struct { A string `json:"x"`; B int `json:"x"` }\<close>.
\<close>

definition dupMetadata :: sentinel_Metadata where
  "dupMetadata =
     \<lparr>sentinel_TypeName = ''dup'',
      sentinel_Fields =
        [\<lparr>sentinel_Name = ''A'', sentinel_Type = ''string'',
          sentinel_Kind = sentinel_KindScalar, sentinel_Tags = [''json'' \<mapsto> ''x'']\<rparr>,
         \<lparr>sentinel_Name = ''B'', sentinel_Type = ''int'',
          sentinel_Kind = sentinel_KindScalar, sentinel_Tags = [''json'' \<mapsto> ''x'']\<rparr>]\<rparr>"

definition dupBuilder :: Builder where
  "dupBuilder = projr (New (Some dupMetadata))"

section \<open>Properties\<close>

subsection \<open>The test builder\<close>

lemma testBuilder_Fields:
  "Fields (b_spec testBuilder) =
     [\<lparr>Name = ''category'', GoName = ''Category'', Kind = KindString\<rparr>,
      \<lparr>Name = ''score'', GoName = ''Score'', Kind = KindFloat\<rparr>,
      \<lparr>Name = ''count'', GoName = ''Count'', Kind = KindInt\<rparr>,
      \<lparr>Name = ''active'', GoName = ''Active'', Kind = KindBool\<rparr>,
      \<lparr>Name = ''tags'', GoName = ''Tags'', Kind = KindSlice\<rparr>,
      \<lparr>Name = ''NoTag'', GoName = ''NoTag'', Kind = KindString\<rparr>]"
  by (simp add: testBuilder_def testMetadata_def New_def resolveFieldName_def
        resolveFieldKind_def strings_HasPrefix_def Let_def)

lemma testBuilder_fields:
  "b_fields testBuilder ''category'' =
     Some \<lparr>Name = ''category'', GoName = ''Category'', Kind = KindString\<rparr>"
  "b_fields testBuilder ''score'' =
     Some \<lparr>Name = ''score'', GoName = ''Score'', Kind = KindFloat\<rparr>"
  "b_fields testBuilder ''count'' =
     Some \<lparr>Name = ''count'', GoName = ''Count'', Kind = KindInt\<rparr>"
  "b_fields testBuilder ''tags'' =
     Some \<lparr>Name = ''tags'', GoName = ''Tags'', Kind = KindSlice\<rparr>"
  "b_fields testBuilder ''missing'' = None"
  by (simp_all add: testBuilder_def testMetadata_def New_def resolveFieldName_def
        resolveFieldKind_def strings_HasPrefix_def Let_def)

subsection \<open>The error check\<close>

lemma first_error_append:
  "first_error (xs @ ys) =
     (case first_error xs of Some e \<Rightarrow> Some e | None \<Rightarrow> first_error ys)"
  by (induction xs) (auto split: option.splits)

lemma Filter_Err_first_error:
  "Filter_Err t = first_error (preorder t)"
  "Filter_Err_range cs = first_error (preorder_range cs)"
  by (induction t and cs rule: Filter_Err_Filter_Err_range.induct)
     (auto simp: first_error_append split: option.splits)

lemma first_error_None:
  "first_error ns = None \<longleftrightarrow> (\<forall>n \<in> set ns. Filter_err n = None)"
  by (induction ns) (auto split: option.splits)

lemma first_error_Some:
  "first_error ns = Some e \<Longrightarrow>
     \<exists>before n after. ns = before @ n # after
        \<and> (\<forall>k \<in> set before. Filter_err k = None) \<and> Filter_err n = Some e"
proof (induction ns)
  case Nil
  then show ?case by simp
next
  case (Cons a ns)
  show ?case
  proof (cases "Filter_err a")
    case None
    with Cons.prems have "first_error ns = Some e" by simp
    from Cons.IH[OF this] obtain before n after where
      h: "ns = before @ n # after" "\<forall>k \<in> set before. Filter_err k = None"
         "Filter_err n = Some e"
      by blast
    have "a # ns = (a # before) @ n # after" using h by simp
    moreover have "\<forall>k \<in> set (a # before). Filter_err k = None" using h None by simp
    ultimately show ?thesis using h(3) by blast
  next
    case (Some e')
    with Cons.prems have "e' = e" by simp
    then have "a # ns = [] @ a # ns \<and> (\<forall>k \<in> set []. Filter_err k = None)
        \<and> Filter_err a = Some e"
      using Some by simp
    then show ?thesis by blast
  qed
qed

text \<open>
  C10. \<^verbatim>\<open>Err()\<close> on a nil \<^verbatim>\<open>*Filter\<close> returns nil: the check of an absent filter does not
  fail and reports no error.
\<close>

theorem Filter_Err_nil: "Filter_Err None = None"
  by simp

text \<open>
  C2. \<^verbatim>\<open>Err()\<close> is a depth-first pre-order traversal that stops at the first error. A node
  with an error of its own returns it at once, whatever its children hold. In general the
  result is the first deferred error of the nodes taken in pre-order: every node before
  the one whose error is returned carries none, and the errors after it play no part. The
  result is nil exactly when no node of the tree carries an error.
\<close>

theorem Filter_Err_preorder:
  "Filter_Err (Some (Filter opr fld v cs (Some e0))) = Some e0
   \<and> Filter_Err (Some (Filter opr fld v cs None)) = Filter_Err_range cs
   \<and> Filter_Err t = first_error (preorder t)
   \<and> (\<forall>e. Filter_Err t = Some e \<longrightarrow>
         (\<exists>before n after. preorder t = before @ n # after
            \<and> (\<forall>k \<in> set before. Filter_err k = None) \<and> Filter_err n = Some e))
   \<and> (Filter_Err t = None \<longleftrightarrow> (\<forall>n \<in> set (preorder t). Filter_err n = None))"
proof -
  have own: "Filter_Err (Some (Filter opr fld v cs (Some e0))) = Some e0" by simp
  have kids: "Filter_Err (Some (Filter opr fld v cs None)) = Filter_Err_range cs" by simp
  have eq: "Filter_Err t = first_error (preorder t)" by (rule Filter_Err_first_error(1))
  have some: "\<forall>e. Filter_Err t = Some e \<longrightarrow>
         (\<exists>before n after. preorder t = before @ n # after
            \<and> (\<forall>k \<in> set before. Filter_err k = None) \<and> Filter_err n = Some e)"
    using first_error_Some[of "preorder t"] eq by simp
  have none: "Filter_Err t = None \<longleftrightarrow> (\<forall>n \<in> set (preorder t). Filter_err n = None)"
    using first_error_None[of "preorder t"] eq by simp
  from own kids eq some none show ?thesis by blast
qed

text \<open>
  A tree with three errors: the root \<^verbatim>\<open>And\<close> has a clean leaf, a nil child, an \<^verbatim>\<open>Or\<close> of
  two failing leaves and one more failing leaf. The check reports the error of the first
  leaf of the \<^verbatim>\<open>Or\<close>.
\<close>

theorem Filter_Err_preorder_witness:
  "Filter_Err (Some (Filter And [] VNil
      [Some (Filter Eq ''a'' (VBool True) [] None),
       None,
       Some (Filter Or [] VNil
          [Some (Filter Eq ''b'' VNil [] (Some ErrFieldNotFound)),
           Some (Filter Gt ''c'' VNil [] (Some ErrInvalidFilter))] None),
       Some (Filter Eq ''d'' VNil [] (Some ErrNotStruct))] None))
   = first_error (preorder (Some (Filter And [] VNil
      [Some (Filter Eq ''a'' (VBool True) [] None),
       None,
       Some (Filter Or [] VNil
          [Some (Filter Eq ''b'' VNil [] (Some ErrFieldNotFound)),
           Some (Filter Gt ''c'' VNil [] (Some ErrInvalidFilter))] None),
       Some (Filter Eq ''d'' VNil [] (Some ErrNotStruct))] None)))
   \<and> first_error (preorder (Some (Filter And [] VNil
      [Some (Filter Eq ''a'' (VBool True) [] None),
       None,
       Some (Filter Or [] VNil
          [Some (Filter Eq ''b'' VNil [] (Some ErrFieldNotFound)),
           Some (Filter Gt ''c'' VNil [] (Some ErrInvalidFilter))] None),
       Some (Filter Eq ''d'' VNil [] (Some ErrNotStruct))] None)))
     = Some ErrFieldNotFound"
  using Filter_Err_preorder[of Eq "[]" VNil "[]" ErrNotStruct
      "Some (Filter And [] VNil
      [Some (Filter Eq ''a'' (VBool True) [] None),
       None,
       Some (Filter Or [] VNil
          [Some (Filter Eq ''b'' VNil [] (Some ErrFieldNotFound)),
           Some (Filter Gt ''c'' VNil [] (Some ErrInvalidFilter))] None),
       Some (Filter Eq ''d'' VNil [] (Some ErrNotStruct))] None)"]
  by simp

subsection \<open>The spec converter\<close>

text \<open>
  What \<^verbatim>\<open>parseOp\<close> accepts: the nine tokens of its switch, each parsed to the operator
  whose \<^verbatim>\<open>String()\<close> it is; every other string, \<^verbatim>\<open>"EQ"\<close> and the empty string included,
  fails with the token as the argument of the error.
\<close>

lemma parseOp_accepts:
  "parseOp ''eq'' = Inr Eq \<and> parseOp ''ne'' = Inr Ne \<and> parseOp ''gt'' = Inr Gt
   \<and> parseOp ''gte'' = Inr Gte \<and> parseOp ''lt'' = Inr Lt \<and> parseOp ''lte'' = Inr Lte
   \<and> parseOp ''in'' = Inr In \<and> parseOp ''and'' = Inr And \<and> parseOp ''or'' = Inr Or"
  by (simp add: parseOp_def)

lemma parseOp_rejects:
  "s \<notin> {''eq'', ''ne'', ''gt'', ''gte'', ''lt'', ''lte'', ''in'', ''and'', ''or''} \<Longrightarrow>
     parseOp s = Inl (Errorf ''%w: unknown operator %q'' ErrInvalidFilter [ArgQ s])"
  by (simp add: parseOp_def)

lemma parseOp_case_sensitive:
  "parseOp ''EQ'' = Inl (Errorf ''%w: unknown operator %q'' ErrInvalidFilter [ArgQ ''EQ''])
   \<and> parseOp [] = Inl (Errorf ''%w: unknown operator %q'' ErrInvalidFilter [ArgQ []])"
  by (simp add: parseOp_def)

lemma parseOp_Inr_String: "parseOp s = Inr opr \<Longrightarrow> Op_String opr = s"
  by (auto simp: parseOp_def split: if_splits)

text \<open>
  C3. \<^verbatim>\<open>parseOp\<close> on the tokens \<^verbatim>\<open>"nin"\<close>, \<^verbatim>\<open>"like"\<close>, \<^verbatim>\<open>"contains"\<close> and \<^verbatim>\<open>"not"\<close>: its
  switch has no case for them, so each one ends in the default branch and fails as an
  unknown operator, although \<^verbatim>\<open>TestParseOp\<close> expects the operators \<^verbatim>\<open>Nin\<close>, \<^verbatim>\<open>Like\<close>,
  \<^verbatim>\<open>Contains\<close> and \<^verbatim>\<open>Not\<close>.
\<close>

theorem parseOp_missing_tokens:
  "parseOp ''nin'' = Inl (Errorf ''%w: unknown operator %q'' ErrInvalidFilter [ArgQ ''nin''])
   \<and> parseOp ''like'' = Inl (Errorf ''%w: unknown operator %q'' ErrInvalidFilter [ArgQ ''like''])
   \<and> parseOp ''contains'' =
       Inl (Errorf ''%w: unknown operator %q'' ErrInvalidFilter [ArgQ ''contains''])
   \<and> parseOp ''not'' = Inl (Errorf ''%w: unknown operator %q'' ErrInvalidFilter [ArgQ ''not''])"
  by (simp add: parseOp_def)

text \<open>
  C4. \<^verbatim>\<open>FromSpec\<close> on a spec whose operator is \<^verbatim>\<open>"not"\<close>: whatever the children are, one
  child included, the result is no \<^verbatim>\<open>Not\<close> node but a bare Filter that carries the error
  of the unknown operator \<^verbatim>\<open>"not"\<close>, without children.
\<close>

theorem FromSpec_not_unknown_operator:
  "Builder_FromSpec b (Some (FilterSpec ''not'' sfield svalue schildren)) =
     Filter Eq [] VNil []
       (Some (Errorf ''%w: unknown operator %q'' ErrInvalidFilter [ArgQ ''not'']))"
  by (simp add: parseOp_def)

text \<open>
  C5. \<^verbatim>\<open>FromSpec\<close> on \<^verbatim>\<open>"and"\<close> or \<^verbatim>\<open>"or"\<close> without children returns a Filter whose error
  wraps \<^verbatim>\<open>ErrInvalidFilter\<close> and names the operator, and the tree-wide check reports it;
  \<^verbatim>\<open>Builder.And()\<close> and \<^verbatim>\<open>Builder.Or()\<close> with no filter return a node without error, for
  which the tree-wide check reports none.
\<close>

theorem empty_logical_spec_vs_direct:
  "Builder_FromSpec b (Some (FilterSpec ''and'' sfield svalue [])) =
     Filter And [] VNil []
       (Some (Errorf ''%w: %s requires at least one child'' ErrInvalidFilter [ArgS ''and'']))
   \<and> Builder_FromSpec b (Some (FilterSpec ''or'' sfield svalue [])) =
     Filter Or [] VNil []
       (Some (Errorf ''%w: %s requires at least one child'' ErrInvalidFilter [ArgS ''or'']))
   \<and> Filter_Err (Some (Builder_FromSpec b (Some (FilterSpec ''and'' sfield svalue [])))) =
       Some (Errorf ''%w: %s requires at least one child'' ErrInvalidFilter [ArgS ''and''])
   \<and> Filter_Err (Some (Builder_FromSpec b (Some (FilterSpec ''or'' sfield svalue [])))) =
       Some (Errorf ''%w: %s requires at least one child'' ErrInvalidFilter [ArgS ''or''])
   \<and> errors_Is (Errorf ''%w: %s requires at least one child'' ErrInvalidFilter [ArgS ''and''])
        ErrInvalidFilter
   \<and> errors_Is (Errorf ''%w: %s requires at least one child'' ErrInvalidFilter [ArgS ''or''])
        ErrInvalidFilter
   \<and> Builder_And b [] = Filter And [] VNil [] None
   \<and> Builder_Or b [] = Filter Or [] VNil [] None
   \<and> Filter_Err (Some (Builder_And b [])) = None
   \<and> Filter_Err (Some (Builder_Or b [])) = None"
  by (simp add: parseOp_def Builder_And_def Builder_Or_def)

subsection \<open>The field builder and the membership operators\<close>

lemma Where_found:
  "b_fields b name = Some fs \<Longrightarrow>
     Builder_Where b name = \<lparr>fb_builder = b, fb_field = name, fb_spec = Some fs, fb_err = None\<rparr>"
  by (simp add: Builder_Where_def)

lemma Where_missing:
  "b_fields b name = None \<Longrightarrow>
     Builder_Where b name = \<lparr>fb_builder = b, fb_field = name, fb_spec = None,
        fb_err = Some (Errorf ''%w: %s'' ErrFieldNotFound [ArgS name])\<rparr>"
  by (simp add: Builder_Where_def)

lemma makeFilter_comparison:
  assumes "b_fields b name = Some fs" and "isComparisonOp opr"
  shows "FieldBuilder_makeFilter (Builder_Where b name) opr v =
           Filter opr name v []
             (if isNumericKind (Kind fs) then None else Some (notValidFor opr (Kind fs) name))"
  using assms
  by (auto simp: Where_found FieldBuilder_makeFilter_def FieldBuilder_validateValue_def
        isComparisonOp_def)

lemma errors_Is_notValidFor: "errors_Is (notValidFor opr k name) ErrInvalidFilter"
  by (simp add: notValidFor_def)

text \<open>
  C6. On a field that resolves in the catalog, each of \<^verbatim>\<open>Gt\<close>, \<^verbatim>\<open>Gte\<close>, \<^verbatim>\<open>Lt\<close> and \<^verbatim>\<open>Lte\<close>
  returns a leaf with the operator, the field name and the value given, and this leaf
  carries no error when the kind of the field is \<^verbatim>\<open>KindInt\<close> or \<^verbatim>\<open>KindFloat\<close>, whatever the
  value, and the error "operator not valid for this kind of field", which wraps
  \<^verbatim>\<open>ErrInvalidFilter\<close>, for every other kind: \<^verbatim>\<open>KindString\<close>, \<^verbatim>\<open>KindBool\<close>, \<^verbatim>\<open>KindSlice\<close> and
  \<^verbatim>\<open>KindUnknown\<close>.
\<close>

theorem comparison_ops_numeric_only:
  assumes "b_fields b name = Some fs"
  shows "FieldBuilder_Gt (Builder_Where b name) v =
           Filter Gt name v []
             (if Kind fs = KindInt \<or> Kind fs = KindFloat then None
              else Some (notValidFor Gt (Kind fs) name))
       \<and> FieldBuilder_Gte (Builder_Where b name) v =
           Filter Gte name v []
             (if Kind fs = KindInt \<or> Kind fs = KindFloat then None
              else Some (notValidFor Gte (Kind fs) name))
       \<and> FieldBuilder_Lt (Builder_Where b name) v =
           Filter Lt name v []
             (if Kind fs = KindInt \<or> Kind fs = KindFloat then None
              else Some (notValidFor Lt (Kind fs) name))
       \<and> FieldBuilder_Lte (Builder_Where b name) v =
           Filter Lte name v []
             (if Kind fs = KindInt \<or> Kind fs = KindFloat then None
              else Some (notValidFor Lte (Kind fs) name))
       \<and> errors_Is (notValidFor opr (Kind fs) name) ErrInvalidFilter
       \<and> ((Kind fs \<noteq> KindInt \<and> Kind fs \<noteq> KindFloat) \<longleftrightarrow>
            Kind fs \<in> {KindString, KindBool, KindSlice, KindUnknown})"
proof -
  have gt: "FieldBuilder_Gt (Builder_Where b name) v =
           Filter Gt name v []
             (if Kind fs = KindInt \<or> Kind fs = KindFloat then None
              else Some (notValidFor Gt (Kind fs) name))"
    using makeFilter_comparison[OF assms, of Gt v]
    by (simp add: FieldBuilder_Gt_def isComparisonOp_def isNumericKind_def)
  have gte: "FieldBuilder_Gte (Builder_Where b name) v =
           Filter Gte name v []
             (if Kind fs = KindInt \<or> Kind fs = KindFloat then None
              else Some (notValidFor Gte (Kind fs) name))"
    using makeFilter_comparison[OF assms, of Gte v]
    by (simp add: FieldBuilder_Gte_def isComparisonOp_def isNumericKind_def)
  have lt: "FieldBuilder_Lt (Builder_Where b name) v =
           Filter Lt name v []
             (if Kind fs = KindInt \<or> Kind fs = KindFloat then None
              else Some (notValidFor Lt (Kind fs) name))"
    using makeFilter_comparison[OF assms, of Lt v]
    by (simp add: FieldBuilder_Lt_def isComparisonOp_def isNumericKind_def)
  have lte: "FieldBuilder_Lte (Builder_Where b name) v =
           Filter Lte name v []
             (if Kind fs = KindInt \<or> Kind fs = KindFloat then None
              else Some (notValidFor Lte (Kind fs) name))"
    using makeFilter_comparison[OF assms, of Lte v]
    by (simp add: FieldBuilder_Lte_def isComparisonOp_def isNumericKind_def)
  have kinds: "(Kind fs \<noteq> KindInt \<and> Kind fs \<noteq> KindFloat) \<longleftrightarrow>
            Kind fs \<in> {KindString, KindBool, KindSlice, KindUnknown}"
    by (cases "Kind fs") simp_all
  from gt gte lt lte kinds errors_Is_notValidFor[of opr "Kind fs" name] show ?thesis by blast
qed

text \<open>
  On the test builder: \<^verbatim>\<open>Where("category").Gt("value")\<close> fails, the field being a string;
  \<^verbatim>\<open>Where("count").Lte(10)\<close> does not.
\<close>

theorem comparison_ops_numeric_only_witness:
  "FieldBuilder_Gt (Builder_Where testBuilder ''category'') (VString ''value'') =
     Filter Gt ''category'' (VString ''value'') []
       (Some (Errorf ''%w: operator %s not valid for %s field %s'' ErrInvalidFilter
                [ArgS ''gt'', ArgS ''string'', ArgS ''category'']))
   \<and> FieldBuilder_Lte (Builder_Where testBuilder ''count'') (VInt 10) =
     Filter Lte ''count'' (VInt 10) [] None"
  using comparison_ops_numeric_only[OF testBuilder_fields(1), of "VString ''value''" Gt]
        comparison_ops_numeric_only[OF testBuilder_fields(3), of "VInt 10" Lte]
  by (simp add: notValidFor_def)

lemma makeFilter_In:
  assumes "b_fields b name = Some fs" and "opr = In \<or> opr = Nin"
  shows "FieldBuilder_makeFilter (Builder_Where b name) opr v =
           Filter opr name v []
             (if reflect_Kind_of v = reflect_Slice then None
              else Some (Errorf ''%w: In operator requires slice of values'' ErrInvalidFilter []))"
  using assms
  by (auto simp: Where_found FieldBuilder_makeFilter_def FieldBuilder_validateValue_def
        validateInValue_def)

lemma FromSpec_in:
  "Builder_FromSpec b (Some (FilterSpec ''in'' name v cs)) =
     (case v of VSliceAny elems \<Rightarrow> FieldBuilder_In (Builder_Where b name) elems
              | _ \<Rightarrow> FieldBuilder_In (Builder_Where b name) [v])"
  by (simp add: parseOp_def Builder_fromFieldSpec_def Builder_fromInSpec_def Let_def)

lemma makeFilter_Value: "Filter_Value (FieldBuilder_makeFilter fb opr v) = v"
  by (simp add: FieldBuilder_makeFilter_def split: option.splits)

lemma makeFilter_Op: "Filter_Op (FieldBuilder_makeFilter fb opr v) = opr"
  by (simp add: FieldBuilder_makeFilter_def split: option.splits)

text \<open>
  Where the check of \<^verbatim>\<open>validateInValue\<close> is reached. On a field of the index, \<^verbatim>\<open>makeFilter\<close>
  with the operator \<^verbatim>\<open>In\<close> or \<^verbatim>\<open>Nin\<close> attaches the error "In operator requires slice of
  values", which wraps \<^verbatim>\<open>ErrInvalidFilter\<close>, exactly when the value it is handed is not a
  slice. The methods \<^verbatim>\<open>In\<close> and \<^verbatim>\<open>Nin\<close> are variadic and hand it the \<^verbatim>\<open>[]any\<close> of their
  arguments, and \<^verbatim>\<open>FromSpec\<close> with the operator \<^verbatim>\<open>"in"\<close> goes through \<^verbatim>\<open>In\<close>.
\<close>

lemma In_check_reach:
  assumes "b_fields b name = Some fs"
  shows "FieldBuilder_makeFilter (Builder_Where b name) In v =
           Filter In name v []
             (if reflect_Kind_of v = reflect_Slice then None
              else Some (Errorf ''%w: In operator requires slice of values'' ErrInvalidFilter []))
       \<and> FieldBuilder_makeFilter (Builder_Where b name) Nin v =
           Filter Nin name v []
             (if reflect_Kind_of v = reflect_Slice then None
              else Some (Errorf ''%w: In operator requires slice of values'' ErrInvalidFilter []))
       \<and> errors_Is (Errorf ''%w: In operator requires slice of values'' ErrInvalidFilter [])
            ErrInvalidFilter
       \<and> FieldBuilder_In (Builder_Where b name) vs = Filter In name (VSliceAny vs) [] None
       \<and> FieldBuilder_Nin (Builder_Where b name) vs = Filter Nin name (VSliceAny vs) [] None
       \<and> Builder_FromSpec b (Some (FilterSpec ''in'' name v cs)) =
           Filter In name (case v of VSliceAny elems \<Rightarrow> VSliceAny elems | _ \<Rightarrow> VSliceAny [v])
             [] None
       \<and> Filter_Err (Some (Builder_FromSpec b (Some (FilterSpec ''in'' name v cs)))) = None"
proof -
  have a: "FieldBuilder_makeFilter (Builder_Where b name) In v =
           Filter In name v []
             (if reflect_Kind_of v = reflect_Slice then None
              else Some (Errorf ''%w: In operator requires slice of values'' ErrInvalidFilter []))"
    using makeFilter_In[OF assms, of In v] by simp
  have b: "FieldBuilder_makeFilter (Builder_Where b name) Nin v =
           Filter Nin name v []
             (if reflect_Kind_of v = reflect_Slice then None
              else Some (Errorf ''%w: In operator requires slice of values'' ErrInvalidFilter []))"
    using makeFilter_In[OF assms, of Nin v] by simp
  have c: "errors_Is (Errorf ''%w: In operator requires slice of values'' ErrInvalidFilter [])
            ErrInvalidFilter" by simp
  have d: "FieldBuilder_In (Builder_Where b name) vs = Filter In name (VSliceAny vs) [] None" for vs
    using makeFilter_In[OF assms, of In "VSliceAny vs"] by (simp add: FieldBuilder_In_def)
  have e: "FieldBuilder_Nin (Builder_Where b name) vs = Filter Nin name (VSliceAny vs) [] None"
    using makeFilter_In[OF assms, of Nin "VSliceAny vs"] by (simp add: FieldBuilder_Nin_def)
  have f: "Builder_FromSpec b (Some (FilterSpec ''in'' name v cs)) =
           Filter In name (case v of VSliceAny elems \<Rightarrow> VSliceAny elems | _ \<Rightarrow> VSliceAny [v])
             [] None"
    by (cases v) (simp_all only: FromSpec_in val.simps d)
  have g: "Filter_Err (Some (Builder_FromSpec b (Some (FilterSpec ''in'' name v cs)))) = None"
    by (simp only: f) simp
  from a b c d e f g show ?thesis by blast
qed

text \<open>
  C8. \<^verbatim>\<open>FromSpec\<close> on \<^verbatim>\<open>{op: "in", field: "category", value: "tech"}\<close> with the test
  builder: a scalar value on a field of the catalog. \<^verbatim>\<open>makeFilter\<close> with the operator \<^verbatim>\<open>In\<close>
  rejects this very value with the error "In operator requires slice of values", which
  wraps \<^verbatim>\<open>ErrInvalidFilter\<close>. \<^verbatim>\<open>fromInSpec\<close> however passes the scalar as the single
  argument of the variadic \<^verbatim>\<open>In\<close>, which wraps it in a \<^verbatim>\<open>[]any\<close> before the check sees it:
  the leaf has the value \<^verbatim>\<open>["tech"]\<close> and no error, and the tree-wide check reports
  nothing.
\<close>

theorem FromSpec_in_scalar_accepted:
  "reflect_Kind_of (VString ''tech'') \<noteq> reflect_Slice
   \<and> FieldBuilder_makeFilter (Builder_Where testBuilder ''category'') In (VString ''tech'') =
       Filter In ''category'' (VString ''tech'') []
         (Some (Errorf ''%w: In operator requires slice of values'' ErrInvalidFilter []))
   \<and> Builder_FromSpec testBuilder (Some (FilterSpec ''in'' ''category'' (VString ''tech'') [])) =
       Filter In ''category'' (VSliceAny [VString ''tech'']) [] None
   \<and> Filter_Err (Some (Builder_FromSpec testBuilder
        (Some (FilterSpec ''in'' ''category'' (VString ''tech'') [])))) = None"
  by (simp add: FromSpec_in FieldBuilder_In_def FieldBuilder_makeFilter_def
        FieldBuilder_validateValue_def validateInValue_def Where_found[OF testBuilder_fields(1)]
        del: Builder_FromSpec.simps)

text \<open>
  \<^verbatim>\<open>FromSpec\<close> with the token \<^verbatim>\<open>"in"\<close>, for any builder and field name: a \<^verbatim>\<open>[]any\<close> is
  expanded into the arguments of \<^verbatim>\<open>In\<close>, a typed slice is its single argument.
\<close>

lemma FromSpec_in_expands:
  "Builder_FromSpec b (Some (FilterSpec ''in'' name (VSliceAny elems) cs)) =
     FieldBuilder_In (Builder_Where b name) elems
   \<and> Filter_Value (Builder_FromSpec b (Some (FilterSpec ''in'' name (VSliceAny elems) cs))) =
       VSliceAny elems
   \<and> Builder_FromSpec b (Some (FilterSpec ''in'' name (VSliceOf t xs) cs)) =
       FieldBuilder_In (Builder_Where b name) [VSliceOf t xs]
   \<and> Filter_Value (Builder_FromSpec b (Some (FilterSpec ''in'' name (VSliceOf t xs) cs))) =
       VSliceAny [VSliceOf t xs]
   \<and> Filter_Op (Builder_FromSpec b (Some (FilterSpec ''in'' name (VSliceAny elems) cs))) = In
   \<and> Filter_Op (Builder_FromSpec b (Some (FilterSpec ''in'' name (VSliceOf t xs) cs))) = In"
  by (simp add: FromSpec_in FieldBuilder_In_def makeFilter_Value makeFilter_Op
        del: Builder_FromSpec.simps)

lemma FromSpec_nin:
  "Builder_FromSpec b (Some (FilterSpec ''nin'' name v cs)) =
     Filter Eq [] VNil []
       (Some (Errorf ''%w: unknown operator %q'' ErrInvalidFilter [ArgQ ''nin'']))"
  by (simp add: parseOp_def)

text \<open>
  C9. \<^verbatim>\<open>FromSpec\<close> with the two membership tokens, for any builder and field name. With
  \<^verbatim>\<open>"in"\<close> a \<^verbatim>\<open>[]any\<close> is expanded, and the value of the resulting Filter is the sequence
  of exactly its elements; a typed slice is passed as one argument, and the value of the
  resulting Filter is the \<^verbatim>\<open>[]any\<close> of one element, the typed slice itself. With \<^verbatim>\<open>"nin"\<close>
  neither happens: \<^verbatim>\<open>parseOp\<close> has no case for the token and \<^verbatim>\<open>FromSpec\<close> never reaches
  \<^verbatim>\<open>Nin\<close>; whatever the value, the result is a bare node with the zero operator, a nil
  value and the error of the unknown operator \<^verbatim>\<open>"nin"\<close>, where \<^verbatim>\<open>TestBuilder_FromSpec_Nin\<close>
  expects the operator \<^verbatim>\<open>Nin\<close>, the elements as value and no error.
\<close>

theorem FromSpec_membership_expansion:
  "Filter_Value (Builder_FromSpec b (Some (FilterSpec ''in'' name (VSliceAny elems) cs))) =
     VSliceAny elems
   \<and> Filter_Value (Builder_FromSpec b (Some (FilterSpec ''in'' name (VSliceOf t xs) cs))) =
       VSliceAny [VSliceOf t xs]
   \<and> Filter_Op (Builder_FromSpec b (Some (FilterSpec ''in'' name (VSliceAny elems) cs))) = In
   \<and> Filter_Op (Builder_FromSpec b (Some (FilterSpec ''in'' name (VSliceOf t xs) cs))) = In
   \<and> Builder_FromSpec b (Some (FilterSpec ''nin'' name (VSliceAny elems) cs)) =
       Filter Eq [] VNil []
         (Some (Errorf ''%w: unknown operator %q'' ErrInvalidFilter [ArgQ ''nin'']))
   \<and> Builder_FromSpec b (Some (FilterSpec ''nin'' name (VSliceOf t xs) cs)) =
       Filter Eq [] VNil []
         (Some (Errorf ''%w: unknown operator %q'' ErrInvalidFilter [ArgQ ''nin'']))
   \<and> Filter_Value (Builder_FromSpec b (Some (FilterSpec ''nin'' name (VSliceAny elems) cs))) =
       VNil
   \<and> Filter_Value (Builder_FromSpec b (Some (FilterSpec ''nin'' name (VSliceOf t xs) cs))) =
       VNil
   \<and> Filter_Op (Builder_FromSpec b (Some (FilterSpec ''nin'' name (VSliceAny elems) cs))) \<noteq> Nin"
  by (simp add: FromSpec_in FromSpec_nin FieldBuilder_In_def makeFilter_Value makeFilter_Op
        del: Builder_FromSpec.simps)

subsection \<open>Schema extraction\<close>

lemma Spec_Field_scan_find: "Spec_Field_scan entries name = List.find (\<lambda>e. Name e = name) entries"
  by (induction entries) simp_all

lemma find_append:
  "List.find P (xs @ ys) = (case List.find P xs of Some x \<Rightarrow> Some x | None \<Rightarrow> List.find P ys)"
  by (induction xs) simp_all

lemma New_loop_result:
  "New_loop declared (acc, m) =
     (acc @ New_entries declared,
      \<lambda>name. case List.find (\<lambda>e. Name e = name) (rev (New_entries declared)) of
                Some e \<Rightarrow> Some e
              | None \<Rightarrow> m name)"
proof (induction declared arbitrary: acc m)
  case Nil
  then show ?case by (simp add: New_entries_def)
next
  case (Cons field rest)
  show ?case
  proof (cases "New_skips field")
    case True
    then show ?thesis
      using Cons.IH[of acc m] by (simp add: New_entries_def New_skips_def Let_def)
  next
    case False
    let ?e = "New_fieldSpec field"
    have step: "New_loop (field # rest) (acc, m) =
                  New_loop rest (acc @ [?e], m(resolveFieldName field \<mapsto> ?e))"
      using False by (simp add: New_skips_def New_fieldSpec_def Let_def)
    have ents: "New_entries (field # rest) = ?e # New_entries rest"
      using False by (simp add: New_entries_def)
    have nm: "Name ?e = resolveFieldName field" by (simp add: New_fieldSpec_def)
    show ?thesis
      unfolding step ents Cons.IH
      by (auto simp: find_append nm fun_eq_iff split: option.splits)
  qed
qed

lemma New_Some:
  "New (Some md) =
     Inr \<lparr>b_spec = \<lparr>TypeName = sentinel_TypeName md, Fields = New_entries (sentinel_Fields md)\<rparr>,
          b_fields = (\<lambda>name. List.find (\<lambda>e. Name e = name) (rev (New_entries (sentinel_Fields md))))\<rparr>"
  by (simp add: New_def New_loop_result fun_eq_iff split: option.splits)

lemma find_rev_distinct:
  "distinct (map Name entries) \<Longrightarrow>
     List.find (\<lambda>e. Name e = name) (rev entries) = List.find (\<lambda>e. Name e = name) entries"
proof (induction entries)
  case Nil
  then show ?case by simp
next
  case (Cons a entries)
  have absent: "List.find (\<lambda>e. Name e = name) entries = None" if "Name a = name"
  proof -
    have "Name a \<notin> Name ` set entries" using Cons.prems by simp
    then have "\<forall>x \<in> set entries. Name x \<noteq> name" using that by blast
    then show ?thesis by (simp add: find_None_iff)
  qed
  show ?case
    using Cons absent by (auto simp: find_append split: option.splits)
qed

text \<open>
  C7, as the code has it. \<open>New\<close> on a struct never fails and rejects no duplicate. The
  catalog holds one entry for every declared field whose resolved name is neither \<^verbatim>\<open>"-"\<close>
  nor empty, in the order of declaration. The index that \<^verbatim>\<open>Where\<close> consults maps a name to
  the last entry of that name in the catalog, and \<^verbatim>\<open>Spec.Field\<close> returns the first one;
  the index has no entry for a name exactly when the catalog has none.
  When the names of the catalog are distinct, the index and \<^verbatim>\<open>Spec.Field\<close> agree on every
  name.
\<close>

theorem New_keeps_duplicates:
  "\<exists>b. New (Some md) = Inr b
      \<and> Fields (b_spec b) = New_entries (sentinel_Fields md)
      \<and> (\<forall>name. b_fields b name = List.find (\<lambda>e. Name e = name) (rev (Fields (b_spec b))))
      \<and> (\<forall>name. fb_spec (Builder_Where b name) =
                   List.find (\<lambda>e. Name e = name) (rev (Fields (b_spec b))))
      \<and> (\<forall>name. Spec_Field (b_spec b) name = List.find (\<lambda>e. Name e = name) (Fields (b_spec b)))
      \<and> (\<forall>name. b_fields b name = None \<longleftrightarrow> name \<notin> set (map Name (Fields (b_spec b))))
      \<and> (distinct (map Name (Fields (b_spec b))) \<longrightarrow>
           (\<forall>name. b_fields b name = Spec_Field (b_spec b) name))"
proof -
  define b where "b = \<lparr>b_spec = \<lparr>TypeName = sentinel_TypeName md,
                                 Fields = New_entries (sentinel_Fields md)\<rparr>,
          b_fields = (\<lambda>name. List.find (\<lambda>e. Name e = name) (rev (New_entries (sentinel_Fields md))))\<rparr>"
  have new: "New (Some md) = Inr b" unfolding b_def by (rule New_Some)
  have flds: "Fields (b_spec b) = New_entries (sentinel_Fields md)" by (simp add: b_def)
  have idx: "\<forall>name. b_fields b name = List.find (\<lambda>e. Name e = name) (rev (Fields (b_spec b)))"
    by (simp add: b_def)
  have wh: "\<forall>name. fb_spec (Builder_Where b name) =
                   List.find (\<lambda>e. Name e = name) (rev (Fields (b_spec b)))"
    using idx by (simp add: Builder_Where_def split: option.splits)
  have sf: "\<forall>name. Spec_Field (b_spec b) name = List.find (\<lambda>e. Name e = name) (Fields (b_spec b))"
    by (simp add: Spec_Field_def Spec_Field_scan_find)
  have agree: "distinct (map Name (Fields (b_spec b))) \<longrightarrow>
           (\<forall>name. b_fields b name = Spec_Field (b_spec b) name)"
    by (simp add: idx sf find_rev_distinct)
  have dom: "\<forall>name. b_fields b name = None \<longleftrightarrow> name \<notin> set (map Name (Fields (b_spec b)))"
    by (auto simp: idx find_None_iff)
  from new flds idx wh sf dom agree show ?thesis by blast
qed

lemma dupBuilder_eq: "New (Some dupMetadata) = Inr dupBuilder"
  by (simp add: dupBuilder_def New_Some)

lemma testBuilder_eq: "New (Some testMetadata) = Inr testBuilder"
  by (simp add: testBuilder_def New_Some)

text \<open>
  The names of the catalog of the test builder are distinct, and the index and
  \<^verbatim>\<open>Spec.Field\<close> give the same entry for \<^verbatim>\<open>category\<close>.
\<close>

theorem New_keeps_duplicates_witness:
  "distinct (map Name (Fields (b_spec testBuilder)))
   \<and> b_fields testBuilder ''category'' = Spec_Field (b_spec testBuilder) ''category''
   \<and> Spec_Field (b_spec testBuilder) ''category'' =
        Some \<lparr>Name = ''category'', GoName = ''Category'', Kind = KindString\<rparr>"
proof -
  from New_keeps_duplicates[of testMetadata] obtain b where
    b: "New (Some testMetadata) = Inr b"
       "distinct (map Name (Fields (b_spec b))) \<longrightarrow>
           (\<forall>name. b_fields b name = Spec_Field (b_spec b) name)"
    by blast
  have eq: "b = testBuilder" using b(1) testBuilder_eq by simp
  have d: "distinct (map Name (Fields (b_spec testBuilder)))"
    by (simp add: testBuilder_Fields)
  have "b_fields testBuilder ''category'' = Spec_Field (b_spec testBuilder) ''category''"
    using b(2) d eq by simp
  moreover have "Spec_Field (b_spec testBuilder) ''category'' =
        Some \<lparr>Name = ''category'', GoName = ''Category'', Kind = KindString\<rparr>"
    by (simp add: Spec_Field_def testBuilder_Fields)
  ultimately show ?thesis using d by simp
qed

text \<open>
  C7, as stated, fails on \<^verbatim>\<open>struct { A string `json:"x"`; B int `json:"x"` }\<close>: the catalog
  holds two entries named \<^verbatim>\<open>x\<close>, and the index and \<^verbatim>\<open>Where("x")\<close> give the entry of the
  field declared last, \<^verbatim>\<open>B\<close>, while \<^verbatim>\<open>Spec.Field("x")\<close> gives the first, \<^verbatim>\<open>A\<close>.
\<close>

theorem New_duplicate_names_counterexample:
  "New (Some dupMetadata) = Inr dupBuilder
   \<and> Fields (b_spec dupBuilder) =
        [\<lparr>Name = ''x'', GoName = ''A'', Kind = KindString\<rparr>,
         \<lparr>Name = ''x'', GoName = ''B'', Kind = KindInt\<rparr>]
   \<and> \<not> distinct (map Name (Fields (b_spec dupBuilder)))
   \<and> b_fields dupBuilder ''x'' = Some \<lparr>Name = ''x'', GoName = ''B'', Kind = KindInt\<rparr>
   \<and> fb_spec (Builder_Where dupBuilder ''x'') =
        Some \<lparr>Name = ''x'', GoName = ''B'', Kind = KindInt\<rparr>
   \<and> Spec_Field (b_spec dupBuilder) ''x'' =
        Some \<lparr>Name = ''x'', GoName = ''A'', Kind = KindString\<rparr>"
proof -
  have flds: "Fields (b_spec dupBuilder) =
        [\<lparr>Name = ''x'', GoName = ''A'', Kind = KindString\<rparr>,
         \<lparr>Name = ''x'', GoName = ''B'', Kind = KindInt\<rparr>]"
    by (simp add: dupBuilder_def dupMetadata_def New_def resolveFieldName_def
        resolveFieldKind_def strings_HasPrefix_def Let_def)
  have idx: "b_fields dupBuilder ''x'' = Some \<lparr>Name = ''x'', GoName = ''B'', Kind = KindInt\<rparr>"
    by (simp add: dupBuilder_def dupMetadata_def New_def resolveFieldName_def
        resolveFieldKind_def strings_HasPrefix_def Let_def)
  have wh: "fb_spec (Builder_Where dupBuilder ''x'') =
        Some \<lparr>Name = ''x'', GoName = ''B'', Kind = KindInt\<rparr>"
    by (simp add: Builder_Where_def idx)
  have sf: "Spec_Field (b_spec dupBuilder) ''x'' =
        Some \<lparr>Name = ''x'', GoName = ''A'', Kind = KindString\<rparr>"
    by (simp add: Spec_Field_def flds)
  have nd: "\<not> distinct (map Name (Fields (b_spec dupBuilder)))" by (simp add: flds)
  from dupBuilder_eq flds nd idx wh sf show ?thesis by blast
qed

subsection \<open>Fields absent from the catalog\<close>

lemma Filter_Err_range_append:
  "Filter_Err_range (xs @ ys) =
     (case Filter_Err_range xs of Some e \<Rightarrow> Some e | None \<Rightarrow> Filter_Err_range ys)"
  by (induction xs) (auto split: option.splits)

lemma Filter_Err_own: "Filter_err f = Some e \<Longrightarrow> Filter_Err (Some f) = Some e"
  by (cases f) simp

lemma nest_reports_some:
  "Filter_err leaf = Some e \<Longrightarrow> Filter_Err (Some (nest b n leaf)) \<noteq> None"
  by (induction n)
     (auto simp: Filter_Err_own Builder_And_def Builder_Or_def Builder_Not_def
        Filter_Err_range_append split: option.splits)

lemma nest_reports_leaf:
  "Filter_err leaf = Some e \<Longrightarrow> clean_before n \<Longrightarrow> Filter_Err (Some (nest b n leaf)) = Some e"
  by (induction n)
     (auto simp: Filter_Err_own Builder_And_def Builder_Or_def Builder_Not_def
        Filter_Err_range_append split: option.splits)

lemma makeFilter_missing:
  "b_fields b name = None \<Longrightarrow>
     FieldBuilder_makeFilter (Builder_Where b name) opr v =
       Filter opr name v [] (Some (Errorf ''%w: %s'' ErrFieldNotFound [ArgS name]))"
  by (simp add: Builder_Where_def FieldBuilder_makeFilter_def)

text \<open>
  C1, as the code has it. For a name absent from the index of the builder, \<^verbatim>\<open>Where\<close>
  returns a field builder whose deferred error wraps \<^verbatim>\<open>ErrFieldNotFound\<close> and holds the
  name. Every operator of this field builder returns a leaf with that same error, the
  operator, the name and the value supplied (for \<^verbatim>\<open>In\<close> and \<^verbatim>\<open>Nin\<close> the \<^verbatim>\<open>[]any\<close> of the
  arguments, for \<^verbatim>\<open>Like\<close> the pattern). However the leaf is nested inside \<^verbatim>\<open>And\<close>, \<^verbatim>\<open>Or\<close>
  and \<^verbatim>\<open>Not\<close>, the tree-wide check is not nil; it is the error of the leaf whenever no
  sibling to the left of the path to the leaf reports an error.
\<close>

theorem Where_missing_field_deferred:
  assumes "b_fields b name = None"
  shows "fb_err (Builder_Where b name) = Some (Errorf ''%w: %s'' ErrFieldNotFound [ArgS name])
   \<and> errors_Is (Errorf ''%w: %s'' ErrFieldNotFound [ArgS name]) ErrFieldNotFound
   \<and> FieldBuilder_makeFilter (Builder_Where b name) opr v =
       Filter opr name v [] (Some (Errorf ''%w: %s'' ErrFieldNotFound [ArgS name]))
   \<and> FieldBuilder_Eq (Builder_Where b name) v =
       Filter Eq name v [] (Some (Errorf ''%w: %s'' ErrFieldNotFound [ArgS name]))
   \<and> FieldBuilder_Ne (Builder_Where b name) v =
       Filter Ne name v [] (Some (Errorf ''%w: %s'' ErrFieldNotFound [ArgS name]))
   \<and> FieldBuilder_Gt (Builder_Where b name) v =
       Filter Gt name v [] (Some (Errorf ''%w: %s'' ErrFieldNotFound [ArgS name]))
   \<and> FieldBuilder_Gte (Builder_Where b name) v =
       Filter Gte name v [] (Some (Errorf ''%w: %s'' ErrFieldNotFound [ArgS name]))
   \<and> FieldBuilder_Lt (Builder_Where b name) v =
       Filter Lt name v [] (Some (Errorf ''%w: %s'' ErrFieldNotFound [ArgS name]))
   \<and> FieldBuilder_Lte (Builder_Where b name) v =
       Filter Lte name v [] (Some (Errorf ''%w: %s'' ErrFieldNotFound [ArgS name]))
   \<and> FieldBuilder_In (Builder_Where b name) vs =
       Filter In name (VSliceAny vs) [] (Some (Errorf ''%w: %s'' ErrFieldNotFound [ArgS name]))
   \<and> FieldBuilder_Nin (Builder_Where b name) vs =
       Filter Nin name (VSliceAny vs) [] (Some (Errorf ''%w: %s'' ErrFieldNotFound [ArgS name]))
   \<and> FieldBuilder_Like (Builder_Where b name) pat =
       Filter Like name (VString pat) [] (Some (Errorf ''%w: %s'' ErrFieldNotFound [ArgS name]))
   \<and> FieldBuilder_Contains (Builder_Where b name) v =
       Filter Contains name v [] (Some (Errorf ''%w: %s'' ErrFieldNotFound [ArgS name]))
   \<and> Filter_Err (Some (nest b n (FieldBuilder_makeFilter (Builder_Where b name) opr v))) \<noteq> None
   \<and> (clean_before n \<longrightarrow>
       Filter_Err (Some (nest b n (FieldBuilder_makeFilter (Builder_Where b name) opr v))) =
         Some (Errorf ''%w: %s'' ErrFieldNotFound [ArgS name]))"
proof -
  have wh: "fb_err (Builder_Where b name) = Some (Errorf ''%w: %s'' ErrFieldNotFound [ArgS name])"
    by (simp add: Where_missing[OF assms])
  have isnf: "errors_Is (Errorf ''%w: %s'' ErrFieldNotFound [ArgS name]) ErrFieldNotFound"
    by simp
  have mk: "FieldBuilder_makeFilter (Builder_Where b name) opr v =
         Filter opr name v [] (Some (Errorf ''%w: %s'' ErrFieldNotFound [ArgS name]))"
    by (rule makeFilter_missing[OF assms])
  have mEq: "FieldBuilder_Eq (Builder_Where b name) v =
         Filter Eq name v [] (Some (Errorf ''%w: %s'' ErrFieldNotFound [ArgS name]))"
    by (simp add: FieldBuilder_Eq_def makeFilter_missing[OF assms])
  have mNe: "FieldBuilder_Ne (Builder_Where b name) v =
         Filter Ne name v [] (Some (Errorf ''%w: %s'' ErrFieldNotFound [ArgS name]))"
    by (simp add: FieldBuilder_Ne_def makeFilter_missing[OF assms])
  have mGt: "FieldBuilder_Gt (Builder_Where b name) v =
         Filter Gt name v [] (Some (Errorf ''%w: %s'' ErrFieldNotFound [ArgS name]))"
    by (simp add: FieldBuilder_Gt_def makeFilter_missing[OF assms])
  have mGte: "FieldBuilder_Gte (Builder_Where b name) v =
         Filter Gte name v [] (Some (Errorf ''%w: %s'' ErrFieldNotFound [ArgS name]))"
    by (simp add: FieldBuilder_Gte_def makeFilter_missing[OF assms])
  have mLt: "FieldBuilder_Lt (Builder_Where b name) v =
         Filter Lt name v [] (Some (Errorf ''%w: %s'' ErrFieldNotFound [ArgS name]))"
    by (simp add: FieldBuilder_Lt_def makeFilter_missing[OF assms])
  have mLte: "FieldBuilder_Lte (Builder_Where b name) v =
         Filter Lte name v [] (Some (Errorf ''%w: %s'' ErrFieldNotFound [ArgS name]))"
    by (simp add: FieldBuilder_Lte_def makeFilter_missing[OF assms])
  have mIn: "FieldBuilder_In (Builder_Where b name) vs =
         Filter In name (VSliceAny vs) [] (Some (Errorf ''%w: %s'' ErrFieldNotFound [ArgS name]))"
    by (simp add: FieldBuilder_In_def makeFilter_missing[OF assms])
  have mNin: "FieldBuilder_Nin (Builder_Where b name) vs =
         Filter Nin name (VSliceAny vs) [] (Some (Errorf ''%w: %s'' ErrFieldNotFound [ArgS name]))"
    by (simp add: FieldBuilder_Nin_def makeFilter_missing[OF assms])
  have mLike: "FieldBuilder_Like (Builder_Where b name) pat =
         Filter Like name (VString pat) [] (Some (Errorf ''%w: %s'' ErrFieldNotFound [ArgS name]))"
    by (simp add: FieldBuilder_Like_def makeFilter_missing[OF assms])
  have mContains: "FieldBuilder_Contains (Builder_Where b name) v =
         Filter Contains name v [] (Some (Errorf ''%w: %s'' ErrFieldNotFound [ArgS name]))"
    by (simp add: FieldBuilder_Contains_def makeFilter_missing[OF assms])
  have some: "Filter_Err (Some (nest b n (FieldBuilder_makeFilter (Builder_Where b name) opr v))) \<noteq> None"
    by (rule nest_reports_some[of _ "Errorf ''%w: %s'' ErrFieldNotFound [ArgS name]"]) (simp add: makeFilter_missing[OF assms])
  have leaf: "(clean_before n \<longrightarrow>
         Filter_Err (Some (nest b n (FieldBuilder_makeFilter (Builder_Where b name) opr v))) =
           Some (Errorf ''%w: %s'' ErrFieldNotFound [ArgS name]))"
    using nest_reports_leaf[of "FieldBuilder_makeFilter (Builder_Where b name) opr v"
        "Errorf ''%w: %s'' ErrFieldNotFound [ArgS name]" n b]
    by (simp add: makeFilter_missing[OF assms])
  from wh isnf mk mEq mNe mGt mGte mLt mLte mIn mNin mLike mContains some leaf show ?thesis by blast
qed

text \<open>
  On the test builder: the leaf \<^verbatim>\<open>Where("missing").Eq(true)\<close> under
  \<^verbatim>\<open>And(ok, Or(ok, Not(leaf)))\<close>.
\<close>

theorem Where_missing_field_deferred_witness:
  "FieldBuilder_Eq (Builder_Where testBuilder ''missing'') (VBool True) =
     Filter Eq ''missing'' (VBool True) []
       (Some (Errorf ''%w: %s'' ErrFieldNotFound [ArgS ''missing'']))
   \<and> Filter_Err (Some (Builder_And testBuilder
        [Some (FieldBuilder_Eq (Builder_Where testBuilder ''category'') (VString ''tech'')),
         Some (Builder_Or testBuilder
           [Some (FieldBuilder_Gte (Builder_Where testBuilder ''score'') (VFloat 0)),
            Some (Builder_Not testBuilder
              (Some (FieldBuilder_Eq (Builder_Where testBuilder ''missing'') (VBool True))))])]))
     = Some (Errorf ''%w: %s'' ErrFieldNotFound [ArgS ''missing''])"
proof -
  let ?leaf = "FieldBuilder_makeFilter (Builder_Where testBuilder ''missing'') Eq (VBool True)"
  let ?ok1 = "Some (FieldBuilder_Eq (Builder_Where testBuilder ''category'') (VString ''tech''))"
  let ?ok2 = "Some (FieldBuilder_Gte (Builder_Where testBuilder ''score'') (VFloat 0))"
  let ?n = "InAnd [?ok1] (InOr [?ok2] (InNot Here) []) []"
  note inst = Where_missing_field_deferred[where b = testBuilder and name = "''missing''"
      and opr = Eq and v = "VBool True" and n = "?n", OF testBuilder_fields(5)]
  have ok1: "Filter_Err ?ok1 = None"
    by (simp add: FieldBuilder_Eq_def FieldBuilder_makeFilter_def FieldBuilder_validateValue_def
          Where_found[OF testBuilder_fields(1)] isComparisonOp_def)
  have ok2: "Filter_Err ?ok2 = None"
    by (simp add: FieldBuilder_Gte_def FieldBuilder_makeFilter_def FieldBuilder_validateValue_def
          Where_found[OF testBuilder_fields(2)] isComparisonOp_def isNumericKind_def)
  have clean: "clean_before ?n" using ok1 ok2 by simp
  have tree: "nest testBuilder ?n ?leaf =
      Builder_And testBuilder
        [?ok1, Some (Builder_Or testBuilder [?ok2, Some (Builder_Not testBuilder (Some ?leaf))])]"
    by simp
  have "Filter_Err (Some (nest testBuilder ?n ?leaf)) =
          Some (Errorf ''%w: %s'' ErrFieldNotFound [ArgS ''missing''])"
    using inst clean by blast
  then have a: "Filter_Err (Some (Builder_And testBuilder
        [?ok1, Some (Builder_Or testBuilder [?ok2, Some (Builder_Not testBuilder (Some ?leaf))])]))
     = Some (Errorf ''%w: %s'' ErrFieldNotFound [ArgS ''missing''])"
    by (simp only: tree)
  have b: "FieldBuilder_Eq (Builder_Where testBuilder ''missing'') (VBool True) =
     Filter Eq ''missing'' (VBool True) []
       (Some (Errorf ''%w: %s'' ErrFieldNotFound [ArgS ''missing'']))"
    using inst by blast
  have c: "FieldBuilder_Eq (Builder_Where testBuilder ''missing'') (VBool True) = ?leaf"
    by (simp add: FieldBuilder_Eq_def)
  from a b c show ?thesis by simp
qed

text \<open>
  C1, as stated, fails: in \<^verbatim>\<open>And(Where("category").Gt("x"), Where("missing").Eq(true))\<close>
  the tree-wide check reports the error of the first child, an invalid filter, and not
  the field-not-found error of the second.
\<close>

theorem nested_missing_field_counterexample:
  "b_fields testBuilder ''missing'' = None
   \<and> Filter_err (FieldBuilder_Eq (Builder_Where testBuilder ''missing'') (VBool True)) =
       Some (Errorf ''%w: %s'' ErrFieldNotFound [ArgS ''missing''])
   \<and> Filter_Err (Some (Builder_And testBuilder
        [Some (FieldBuilder_Gt (Builder_Where testBuilder ''category'') (VString ''x'')),
         Some (FieldBuilder_Eq (Builder_Where testBuilder ''missing'') (VBool True))])) =
       Some (Errorf ''%w: operator %s not valid for %s field %s'' ErrInvalidFilter
               [ArgS ''gt'', ArgS ''string'', ArgS ''category''])
   \<and> \<not> errors_Is (Errorf ''%w: operator %s not valid for %s field %s'' ErrInvalidFilter
               [ArgS ''gt'', ArgS ''string'', ArgS ''category'']) ErrFieldNotFound"
  by (simp add: testBuilder_fields FieldBuilder_Eq_def FieldBuilder_Gt_def
        FieldBuilder_makeFilter_def FieldBuilder_validateValue_def Builder_And_def
        Where_found[OF testBuilder_fields(1)] Where_missing[OF testBuilder_fields(5)]
        isComparisonOp_def isNumericKind_def notValidFor_def)

end
